theory Spec2Isabelle
  imports Main "HOL-Library.Word" "HOL-Library.Monad_Syntax"
begin

section \<open>Entities\<close>

text \<open>
  Modelled from the spec: the packages \<open>domain\<close> and \<open>usecases\<close> that declare the
  entity structs are imported by \<open>interfaces/repositories.go\<close>; the fields are the
  ones the repository code reads and writes (data model, section 3 of the
  specification). Go's \<open>int\<close> identifiers are never computed with by the repository
  code, so they are plain integers; \<open>[]uint8\<close> is a list of bytes.
\<close>

type_synonym byte = "8 word"

record Player =
  Player_Id :: int
  Player_Name :: string

record User =
  User_Id :: int
  User_Name :: string
  User_Player :: Player
  User_PersonalInfo :: string

record Game =
  Game_Id :: int
  Game_LibraryId :: int
  Game_Name :: string
  Game_Producer :: string
  Game_Value :: "byte list"

record Library =
  Library_Id :: int
  Library_User :: User
  Library_Games :: "Game list"

text \<open>The zero values \<open>domain.Player{}\<close>, \<open>usecases.User{}\<close>, \<open>usecases.Game{}\<close>
  and \<open>usecases.Library{}\<close>.\<close>

definition Player_zero :: Player where
  "Player_zero = \<lparr>Player_Id = 0, Player_Name = []\<rparr>"

definition User_zero :: User where
  "User_zero = \<lparr>User_Id = 0, User_Name = [], User_Player = Player_zero,
     User_PersonalInfo = []\<rparr>"

definition Game_zero :: Game where
  "Game_zero = \<lparr>Game_Id = 0, Game_LibraryId = 0, Game_Name = [], Game_Producer = [],
     Game_Value = []\<rparr>"

definition Library_zero :: Library where
  "Library_zero = \<lparr>Library_Id = 0, Library_User = User_zero, Library_Games = []\<rparr>"

section \<open>Errors\<close>

text \<open>
  Go's \<open>error\<close> values that reach the repositories: \<open>sql.ErrNoRows\<close> (named in
  \<open>DbUserRepo.Remove\<close>), an error built by \<open>fmt.Errorf\<close>, an error of the storage
  driver passed through unchanged, and an error raised by \<open>Scan\<close> on a cursor.
  \<open>None\<close> of type \<open>error option\<close> is \<open>nil\<close>.
\<close>

datatype error = ErrNoRows | Errorf string | DriverError string | ScanError string

definition is_scan_failure :: "error \<Rightarrow> bool" where
  "is_scan_failure e = (case e of ScanError _ \<Rightarrow> True | _ \<Rightarrow> False)"

section \<open>The row cursor\<close>

text \<open>
  The \<open>Row\<close> interface (\<open>Scan\<close>, \<open>Next\<close>, \<open>Close\<close>) as \<open>PostgresqlRow\<close> implements it, by
  delegation to \<open>*sql.Rows\<close>. A column value is an integer, a string or a byte
  string. \<open>Rows pending cur closed\<close> is a live cursor: the rows not yet visited, the
  row \<open>Next\<close> last moved to, and whether the cursor is closed. \<open>NilRows\<close> is the
  \<open>PostgresqlRow\<close> whose \<open>Rows\<close> field is nil, which \<open>PostgresqlHandler.Query\<close> returns
  beside an error: every method call on it dereferences nil and panics.
  A panic is the result \<open>None\<close>.
\<close>

datatype val = VInt int | VStr string | VBytes "byte list"

datatype cursor = NilRows | Rows (pending: "val list list") (cur: "val list option") (closed: bool)

fun Next :: "cursor \<Rightarrow> (bool \<times> cursor) option" where
  "Next NilRows = None"
| "Next (Rows ps c cl) =
     (if cl then Some (False, Rows ps c cl)
      else case ps of
             [] \<Rightarrow> Some (False, Rows [] None True)
           | r # rs \<Rightarrow> Some (True, Rows rs (Some r) False))"

fun Close :: "cursor \<Rightarrow> cursor option" where
  "Close NilRows = None"
| "Close (Rows ps c cl) = Some (Rows ps c True)"

text \<open>\<open>Scan\<close> yields the current row, or the error of \<open>sql.Rows.Scan\<close>: the cursor is
  closed (\<open>Next\<close> closes it when it finds no further row), or \<open>Next\<close> was never
  called.\<close>

fun Scan :: "cursor \<Rightarrow> (error + val list) option" where
  "Scan NilRows = None"
| "Scan (Rows ps c cl) =
     (if cl then Some (Inl (ScanError ''sql: Rows are closed''))
      else case c of
             None \<Rightarrow> Some (Inl (ScanError ''sql: Scan called without calling Next''))
           | Some r \<Rightarrow> Some (Inr r))"

text \<open>\<open>Scan\<close> into typed destinations. A destination keeps its zero value when the
  scan fails. A row that does not fit the destinations is a conversion error, whose
  message here stands for the one \<open>database/sql\<close> composes; the queries of the
  repositories select columns that fit.\<close>

definition convert_error :: error where
  "convert_error = ScanError ''sql: Scan error: unsupported conversion''"

definition Scan_int :: "cursor \<Rightarrow> (int \<times> error option) option" where
  "Scan_int row = do {
     r \<leftarrow> Scan row;
     Some (case r of
             Inl e \<Rightarrow> (0, Some e)
           | Inr [VInt i] \<Rightarrow> (i, None)
           | Inr _ \<Rightarrow> (0, Some convert_error)) }"

definition Scan_string :: "cursor \<Rightarrow> (string \<times> error option) option" where
  "Scan_string row = do {
     r \<leftarrow> Scan row;
     Some (case r of
             Inl e \<Rightarrow> ([], Some e)
           | Inr [VStr s] \<Rightarrow> (s, None)
           | Inr _ \<Rightarrow> ([], Some convert_error)) }"

definition Scan_user :: "cursor \<Rightarrow> ((string \<times> int \<times> string) \<times> error option) option" where
  "Scan_user row = do {
     r \<leftarrow> Scan row;
     Some (case r of
             Inl e \<Rightarrow> (([], 0, []), Some e)
           | Inr [VStr n, VInt p, VStr i] \<Rightarrow> ((n, p, i), None)
           | Inr _ \<Rightarrow> (([], 0, []), Some convert_error)) }"

definition Scan_game ::
  "cursor \<Rightarrow> ((int \<times> string \<times> string \<times> byte list) \<times> error option) option" where
  "Scan_game row = do {
     r \<leftarrow> Scan row;
     Some (case r of
             Inl e \<Rightarrow> ((0, [], [], []), Some e)
           | Inr [VInt l, VStr n, VStr p, VBytes v] \<Rightarrow> ((l, n, p, v), None)
           | Inr _ \<Rightarrow> ((0, [], [], []), Some convert_error)) }"

section \<open>The backing store\<close>

text \<open>
  The statements the repositories issue, one constructor per SQL text, grouped by the
  \<open>DbHandler\<close> method they are passed to; the arguments are the bound parameters in
  the order of the Go call.
\<close>

datatype query_stmt =
    SelectUserById int             \<comment> \<open>SELECT user_name, player_id, personal_info FROM users WHERE id = $1 LIMIT 1\<close>
  | SelectUserByName string        \<comment> \<open>SELECT user_name FROM users WHERE user_name=$1 LIMIT 1\<close>
  | SelectInfoById int             \<comment> \<open>SELECT personal_info FROM users WHERE id=$1\<close>
  | SelectPlayerById int           \<comment> \<open>SELECT player_name FROM players WHERE id = $1 LIMIT 1\<close>
  | SelectPlayerByName string      \<comment> \<open>SELECT player_name FROM players WHERE player_name=$1 LIMIT 1\<close>
  | SelectPlayerByIdName int string \<comment> \<open>SELECT * FROM players WHERE id=$1 AND player_name=$2 LIMIT 1\<close>
  | SelectLibraryById int          \<comment> \<open>SELECT user_id FROM libraries WHERE id = $1 LIMIT 1\<close>
  | SelectLibraryIdById int        \<comment> \<open>SELECT id FROM libraries WHERE id=$1 LIMIT 1\<close>
  | SelectGameIdsByLibrary int     \<comment> \<open>SELECT id FROM games WHERE library_id = $1\<close>
  | SelectGameById int             \<comment> \<open>SELECT library_id, game_name, producer, value FROM games WHERE id = $1 LIMIT 1\<close>

datatype exec_stmt =
    DeleteUser int                 \<comment> \<open>DELETE FROM users WHERE id=$1\<close>
  | UpdateUserInfo string int      \<comment> \<open>UPDATE users SET personal_info=$1 WHERE id=$2\<close>
  | InsertPlayer string            \<comment> \<open>INSERT INTO players (player_name) VALUES ($1)\<close>
  | DeleteLibrary int              \<comment> \<open>DELETE FROM libraries WHERE id=$1\<close>
  | DeleteGame int                 \<comment> \<open>DELETE FROM games WHERE id=$1\<close>

datatype scalar_stmt =
    InsertUser string int string   \<comment> \<open>INSERT INTO users (user_name, player_id, personal_info) VALUES ($1, $2, $3) RETURNING id\<close>
  | InsertLibrary int              \<comment> \<open>INSERT INTO libraries (user_id) VALUES ($1) RETURNING id\<close>
  | InsertGame int string string "byte list" \<comment> \<open>INSERT INTO games (library_id, game_name, producer, value) VALUES ($1, $2, $3, $4) RETURNING id\<close>

text \<open>
  One database behind a \<open>DbHandler\<close>: the four tables of the schema, in the order a
  scan of the table yields the rows (a new row goes last), the last value each
  \<open>id\<close> sequence handed out, and how the engine fails. The engine is outside the
  repository code; what it may refuse (connectivity, constraints, syntax) is the
  arbitrary \<open>query_fault\<close>, \<open>exec_fault\<close> and \<open>scalar_fault\<close>: a statement with a
  fault has no effect and returns that error. \<open>err_rows\<close> is the cursor the handler
  returns beside a query error.
\<close>

record db =
  players :: "(int \<times> string) list"
  users :: "(int \<times> string \<times> int \<times> string) list"
  libraries :: "(int \<times> int) list"
  games :: "(int \<times> int \<times> string \<times> string \<times> byte list) list"
  players_seq :: int
  users_seq :: int
  libraries_seq :: int
  games_seq :: int
  query_fault :: "query_stmt \<Rightarrow> error option"
  exec_fault :: "exec_stmt \<Rightarrow> error option"
  scalar_fault :: "scalar_stmt \<Rightarrow> error option"
  err_rows :: cursor

fun select_rows :: "db \<Rightarrow> query_stmt \<Rightarrow> val list list" where
  "select_rows d (SelectUserById i) =
     take 1 (map (\<lambda>(j, n, p, info). [VStr n, VInt p, VStr info])
       (filter (\<lambda>(j, n, p, info). j = i) (users d)))"
| "select_rows d (SelectUserByName name) =
     take 1 (map (\<lambda>(j, n, p, info). [VStr n])
       (filter (\<lambda>(j, n, p, info). n = name) (users d)))"
| "select_rows d (SelectInfoById i) =
     map (\<lambda>(j, n, p, info). [VStr info]) (filter (\<lambda>(j, n, p, info). j = i) (users d))"
| "select_rows d (SelectPlayerById i) =
     take 1 (map (\<lambda>(j, n). [VStr n]) (filter (\<lambda>(j, n). j = i) (players d)))"
| "select_rows d (SelectPlayerByName name) =
     take 1 (map (\<lambda>(j, n). [VStr n]) (filter (\<lambda>(j, n). n = name) (players d)))"
| "select_rows d (SelectPlayerByIdName i name) =
     take 1 (map (\<lambda>(j, n). [VInt j, VStr n])
       (filter (\<lambda>(j, n). j = i \<and> n = name) (players d)))"
| "select_rows d (SelectLibraryById i) =
     take 1 (map (\<lambda>(j, u). [VInt u]) (filter (\<lambda>(j, u). j = i) (libraries d)))"
| "select_rows d (SelectLibraryIdById i) =
     take 1 (map (\<lambda>(j, u). [VInt j]) (filter (\<lambda>(j, u). j = i) (libraries d)))"
| "select_rows d (SelectGameIdsByLibrary l) =
     map (\<lambda>(j, lib, n, p, v). [VInt j]) (filter (\<lambda>(j, lib, n, p, v). lib = l) (games d))"
| "select_rows d (SelectGameById i) =
     take 1 (map (\<lambda>(j, lib, n, p, v). [VInt lib, VStr n, VStr p, VBytes v])
       (filter (\<lambda>(j, lib, n, p, v). j = i) (games d)))"

text \<open>\<open>Query\<close>: \<open>PostgresqlHandler.Query\<close> returns a fresh \<open>PostgresqlRow\<close> over the
  result, or its error-path cursor and the error. A query leaves the store as it
  is.\<close>

definition Query :: "db \<Rightarrow> query_stmt \<Rightarrow> cursor \<times> error option" where
  "Query d s =
     (case query_fault d s of
        Some e \<Rightarrow> (err_rows d, Some e)
      | None \<Rightarrow> (Rows (select_rows d s) None False, None))"

fun exec_effect :: "exec_stmt \<Rightarrow> db \<Rightarrow> db" where
  "exec_effect (DeleteUser i) d =
     d\<lparr>users := filter (\<lambda>(j, n, p, info). j \<noteq> i) (users d)\<rparr>"
| "exec_effect (UpdateUserInfo info' i) d =
     d\<lparr>users := map (\<lambda>(j, n, p, info). if j = i then (j, n, p, info') else (j, n, p, info))
        (users d)\<rparr>"
| "exec_effect (InsertPlayer name) d =
     d\<lparr>players := players d @ [(players_seq d + 1, name)],
       players_seq := players_seq d + 1\<rparr>"
| "exec_effect (DeleteLibrary i) d =
     d\<lparr>libraries := filter (\<lambda>(j, u). j \<noteq> i) (libraries d)\<rparr>"
| "exec_effect (DeleteGame i) d =
     d\<lparr>games := filter (\<lambda>(j, lib, n, p, v). j \<noteq> i) (games d)\<rparr>"

text \<open>\<open>Execute\<close>: the \<open>sql.Result\<close> is discarded by every caller, so only the error and
  the new store are returned.\<close>

definition Execute :: "db \<Rightarrow> exec_stmt \<Rightarrow> error option \<times> db" where
  "Execute d s =
     (case exec_fault d s of
        Some e \<Rightarrow> (Some e, d)
      | None \<Rightarrow> (None, exec_effect s d))"

text \<open>
  Modelled from the spec: \<open>QueryRow\<close> is declared by the \<open>DbHandler\<close> interface and has
  no implementation under \<open>infrastructure\<close>; it is the driver's \<open>QueryScalarInt\<close> of
  section 4.1, used for \<open>INSERT ... RETURNING id\<close>: it inserts the row under the next
  value of the table's sequence and returns that value, or returns 0 and the error.
\<close>

fun QueryRow :: "db \<Rightarrow> scalar_stmt \<Rightarrow> (int \<times> error option) \<times> db" where
  "QueryRow d (InsertUser n p info) =
     (case scalar_fault d (InsertUser n p info) of
        Some e \<Rightarrow> ((0, Some e), d)
      | None \<Rightarrow> ((users_seq d + 1, None),
          d\<lparr>users := users d @ [(users_seq d + 1, n, p, info)],
            users_seq := users_seq d + 1\<rparr>))"
| "QueryRow d (InsertLibrary u) =
     (case scalar_fault d (InsertLibrary u) of
        Some e \<Rightarrow> ((0, Some e), d)
      | None \<Rightarrow> ((libraries_seq d + 1, None),
          d\<lparr>libraries := libraries d @ [(libraries_seq d + 1, u)],
            libraries_seq := libraries_seq d + 1\<rparr>))"
| "QueryRow d (InsertGame l n p v) =
     (case scalar_fault d (InsertGame l n p v) of
        Some e \<Rightarrow> ((0, Some e), d)
      | None \<Rightarrow> ((games_seq d + 1, None),
          d\<lparr>games := games d @ [(games_seq d + 1, l, n, p, v)],
            games_seq := games_seq d + 1\<rparr>))"

text \<open>
  The stores the data model allows: in every table the ids are distinct and none
  exceeds the table's sequence, and the players' names are distinct. The
  repositories keep a store so (section "The store invariant").
\<close>

definition store_ok :: "db \<Rightarrow> bool" where
  "store_ok d \<longleftrightarrow>
     distinct (map fst (players d)) \<and> distinct (map snd (players d))
     \<and> (\<forall>r\<in>set (players d). fst r \<le> players_seq d)
     \<and> distinct (map fst (users d)) \<and> (\<forall>r\<in>set (users d). fst r \<le> users_seq d)
     \<and> distinct (map fst (libraries d)) \<and> (\<forall>r\<in>set (libraries d). fst r \<le> libraries_seq d)
     \<and> distinct (map fst (games d)) \<and> (\<forall>r\<in>set (games d). fst r \<le> games_seq d)"

section \<open>Repositories\<close>

text \<open>
  \<open>dbHandlers\<close> maps a repository's name to its \<open>DbHandler\<close>. A handler is a reference
  to a database, so two names may share one database: a handler is a \<open>handle\<close>, and
  the \<open>world\<close> gives the database behind each handle. A name that is not in the map
  yields the nil handler, and a method call on it panics.

  A repository method returns \<open>None\<close> when it panics, and otherwise what the Go
  method returns, with the world after it when the method writes.
\<close>

type_synonym handle = nat
type_synonym world = "handle \<Rightarrow> db"

record DbRepo =
  dbHandlers :: "string \<rightharpoonup> handle"
  dbHandler :: "handle option"

text \<open>\<open>defer row.Close()\<close>: the call runs when the surrounding method returns.\<close>

definition defer_Close :: "cursor \<Rightarrow> 'a option \<Rightarrow> 'a option" where
  "defer_Close row body = do { r \<leftarrow> body; _ \<leftarrow> Close row; Some r }"

definition NewDbUserRepo :: "(string \<rightharpoonup> handle) \<Rightarrow> DbRepo" where
  "NewDbUserRepo hs = \<lparr>dbHandlers = hs, dbHandler = hs ''DbUserRepo''\<rparr>"

definition NewDbPlayerRepo :: "(string \<rightharpoonup> handle) \<Rightarrow> DbRepo" where
  "NewDbPlayerRepo hs = \<lparr>dbHandlers = hs, dbHandler = hs ''DbPlayerRepo''\<rparr>"

definition NewDbLibraryRepo :: "(string \<rightharpoonup> handle) \<Rightarrow> DbRepo" where
  "NewDbLibraryRepo hs = \<lparr>dbHandlers = hs, dbHandler = hs ''DbLibraryRepo''\<rparr>"

definition NewDbGameRepo :: "(string \<rightharpoonup> handle) \<Rightarrow> DbRepo" where
  "NewDbGameRepo hs = \<lparr>dbHandlers = hs, dbHandler = hs ''DbGameRepo''\<rparr>"

subsection \<open>Player repository\<close>

definition DbPlayerRepo_playerExisted ::
  "DbRepo \<Rightarrow> world \<Rightarrow> string \<Rightarrow> (bool \<times> error option) option" where
  "DbPlayerRepo_playerExisted repo w playerName = do {
     h \<leftarrow> dbHandler repo;
     let (row, err) = Query (w h) (SelectPlayerByName playerName);
     defer_Close row (do {
       (has_row, row') \<leftarrow> Next row;
       Some (has_row, err) }) }"

definition DbPlayerRepo_NameMatchesId ::
  "DbRepo \<Rightarrow> world \<Rightarrow> string \<Rightarrow> int \<Rightarrow> (bool \<times> error option) option" where
  "DbPlayerRepo_NameMatchesId repo w playerName id' = do {
     h \<leftarrow> dbHandler repo;
     let (row, err) = Query (w h) (SelectPlayerByIdName id' playerName);
     defer_Close row (do {
       (has_row, row') \<leftarrow> Next row;
       Some (has_row, err) }) }"

definition DbPlayerRepo_Store ::
  "DbRepo \<Rightarrow> world \<Rightarrow> Player \<Rightarrow> (error option \<times> world) option" where
  "DbPlayerRepo_Store repo w player = do {
     (existed, err) \<leftarrow> DbPlayerRepo_playerExisted repo w (Player_Name player);
     if err \<noteq> None then Some (err, w)
     else if \<not> existed then do {
       h \<leftarrow> dbHandler repo;
       let (err, d) = Execute (w h) (InsertPlayer (Player_Name player));
       Some (err, w(h := d)) }
     else Some (None, w) }"

definition DbPlayerRepo_FindById ::
  "DbRepo \<Rightarrow> world \<Rightarrow> int \<Rightarrow> (Player \<times> error option) option" where
  "DbPlayerRepo_FindById repo w id' = do {
     h \<leftarrow> dbHandler repo;
     let (row, err) = Query (w h) (SelectPlayerById id');
     if err \<noteq> None then Some (Player_zero, err)
     else defer_Close row (do {
       (has_row, row') \<leftarrow> Next row;
       (name, err) \<leftarrow> Scan_string row';
       if err \<noteq> None then Some (Player_zero, err)
       else Some (\<lparr>Player_Id = id', Player_Name = name\<rparr>, None) }) }"

subsection \<open>User repository\<close>

definition DbUserRepo_Store ::
  "DbRepo \<Rightarrow> world \<Rightarrow> User \<Rightarrow> ((int \<times> error option) \<times> world) option" where
  "DbUserRepo_Store repo w user = do {
     let playerRepo = NewDbPlayerRepo (dbHandlers repo);
     (match, err) \<leftarrow> DbPlayerRepo_NameMatchesId playerRepo w
        (Player_Name (User_Player user)) (Player_Id (User_Player user));
     if err \<noteq> None then Some ((0, err), w)
     else if \<not> match then Some ((0, Some (Errorf ''Player name does not match Id'')), w)
     else do {
       h \<leftarrow> dbHandler repo;
       let ((id', err), d) = QueryRow (w h)
          (InsertUser (User_Name user) (Player_Id (User_Player user)) (User_PersonalInfo user));
       if err \<noteq> None then Some ((0, err), w(h := d))
       else do {
         (err, w') \<leftarrow> DbPlayerRepo_Store playerRepo (w(h := d)) (User_Player user);
         Some ((id', err), w') } } }"

definition DbUserRepo_Remove ::
  "DbRepo \<Rightarrow> world \<Rightarrow> User \<Rightarrow> (error option \<times> world) option" where
  "DbUserRepo_Remove repo w user = do {
     h \<leftarrow> dbHandler repo;
     let (err, d) = Execute (w h) (DeleteUser (User_Id user));
     Some (if err = Some ErrNoRows then err else err, w(h := d)) }"

definition DbUserRepo_FindById ::
  "DbRepo \<Rightarrow> world \<Rightarrow> int \<Rightarrow> (User \<times> error option) option" where
  "DbUserRepo_FindById repo w id' = do {
     h \<leftarrow> dbHandler repo;
     let (row, err) = Query (w h) (SelectUserById id');
     if err \<noteq> None then Some (User_zero, err)
     else defer_Close row (do {
       (has_row, row') \<leftarrow> Next row;
       ((userName, playerId, personalInfo), err) \<leftarrow> Scan_user row';
       if err \<noteq> None then Some (User_zero, err)
       else do {
         let playerRepo = NewDbPlayerRepo (dbHandlers repo);
         (player, err) \<leftarrow> DbPlayerRepo_FindById playerRepo w playerId;
         if err \<noteq> None then Some (User_zero, err)
         else Some (\<lparr>User_Id = id', User_Name = userName, User_Player = player,
                      User_PersonalInfo = personalInfo\<rparr>, None) } }) }"


definition DbUserRepo_StoreInfo ::
  "DbRepo \<Rightarrow> world \<Rightarrow> User \<Rightarrow> string \<Rightarrow> (error option \<times> world) option" where
  "DbUserRepo_StoreInfo repo w user info = do {
     h \<leftarrow> dbHandler repo;
     let (err, d) = Execute (w h) (UpdateUserInfo info (User_Id user));
     Some (err, w(h := d)) }"

definition DbUserRepo_LoadInfo ::
  "DbRepo \<Rightarrow> world \<Rightarrow> User \<Rightarrow> (string \<times> error option) option" where
  "DbUserRepo_LoadInfo repo w user = do {
     h \<leftarrow> dbHandler repo;
     let (row, err) = Query (w h) (SelectInfoById (User_Id user));
     if err \<noteq> None then Some ([], err)
     else defer_Close row (do {
       (has_row, row') \<leftarrow> Next row;
       (info, err) \<leftarrow> Scan_string row';
       Some (info, err) }) }"

subsection \<open>Game repository\<close>

definition DbGameRepo_Store ::
  "DbRepo \<Rightarrow> world \<Rightarrow> Game \<Rightarrow> ((int \<times> error option) \<times> world) option" where
  "DbGameRepo_Store repo w game = do {
     h \<leftarrow> dbHandler repo;
     let ((id', err), d) = QueryRow (w h)
        (InsertGame (Game_LibraryId game) (Game_Name game) (Game_Producer game)
           (Game_Value game));
     Some ((id', err), w(h := d)) }"

definition DbGameRepo_Remove ::
  "DbRepo \<Rightarrow> world \<Rightarrow> Game \<Rightarrow> (error option \<times> world) option" where
  "DbGameRepo_Remove repo w game = do {
     h \<leftarrow> dbHandler repo;
     let (err, d) = Execute (w h) (DeleteGame (Game_Id game));
     Some (err, w(h := d)) }"

definition DbGameRepo_FindById ::
  "DbRepo \<Rightarrow> world \<Rightarrow> int \<Rightarrow> (Game \<times> error option) option" where
  "DbGameRepo_FindById repo w id' = do {
     h \<leftarrow> dbHandler repo;
     let (row, err) = Query (w h) (SelectGameById id');
     if err \<noteq> None then Some (Game_zero, err)
     else defer_Close row (do {
       (has_row, row') \<leftarrow> Next row;
       ((libraryId, name, producer, value), err) \<leftarrow> Scan_game row';
       if err \<noteq> None then Some (Game_zero, err)
       else Some (\<lparr>Game_Id = id', Game_LibraryId = libraryId, Game_Name = name,
                    Game_Producer = producer, Game_Value = value\<rparr>, None) }) }"

subsection \<open>Library repository\<close>

definition DbLibraryRepo_Store ::
  "DbRepo \<Rightarrow> world \<Rightarrow> Library \<Rightarrow> ((int \<times> error option) \<times> world) option" where
  "DbLibraryRepo_Store repo w library = do {
     h \<leftarrow> dbHandler repo;
     let ((id', err), d) = QueryRow (w h) (InsertLibrary (User_Id (Library_User library)));
     Some ((id', err), w(h := d)) }"

definition DbLibraryRepo_Remove ::
  "DbRepo \<Rightarrow> world \<Rightarrow> Library \<Rightarrow> (error option \<times> world) option" where
  "DbLibraryRepo_Remove repo w library = do {
     h \<leftarrow> dbHandler repo;
     let (err, d) = Execute (w h) (DeleteLibrary (Library_Id library));
     Some (err, w(h := d)) }"

text \<open>The number of rows a cursor can still move to: the measure of the loop over
  the games cursor.\<close>

fun rows_left :: "cursor \<Rightarrow> nat" where
  "rows_left NilRows = 0"
| "rows_left (Rows ps c cl) = length ps"

text \<open>
  The loop \<open>for row.Next() { ... }\<close> of \<open>DbLibraryRepo.FindById\<close>: \<open>err\<close> is the
  method's \<open>err\<close> variable, which the loop body assigns from \<open>Scan\<close>; the \<open>err\<close> of
  \<open>gameRepo.FindById\<close> is a new variable of the loop body.
\<close>

function FindById_games ::
  "DbRepo \<Rightarrow> world \<Rightarrow> cursor \<Rightarrow> Library \<Rightarrow> error option \<Rightarrow> (Library \<times> error option) option"
where
  "FindById_games gameRepo w row library err =
     (case Next row of
        None \<Rightarrow> None
      | Some (has_row, row') \<Rightarrow>
          if \<not> has_row then Some (library, err)
          else (case Scan_int row' of
                  None \<Rightarrow> None
                | Some (gameId, err') \<Rightarrow>
                    if err' \<noteq> None then Some (library, err')
                    else (case DbGameRepo_FindById gameRepo w gameId of
                            None \<Rightarrow> None
                          | Some (game, gerr) \<Rightarrow>
                              if gerr \<noteq> None then Some (library, gerr)
                              else FindById_games gameRepo w row'
                                     (library\<lparr>Library_Games := Library_Games library @ [game]\<rparr>)
                                     err')))"
  by pat_completeness auto
termination
  by (relation "measure (\<lambda>(gameRepo, w, row, library, err). rows_left row)")
     (auto elim!: Next.elims split: if_splits list.splits)

declare FindById_games.simps [simp del]

definition DbLibraryRepo_FindById ::
  "DbRepo \<Rightarrow> world \<Rightarrow> int \<Rightarrow> (Library \<times> error option) option" where
  "DbLibraryRepo_FindById repo w id' = do {
     h \<leftarrow> dbHandler repo;
     let (row, err) = Query (w h) (SelectLibraryById id');
     if err \<noteq> None then Some (Library_zero, err)
     else defer_Close row (do {
       (has_row, row') \<leftarrow> Next row;
       (userId, _) \<leftarrow> Scan_int row';
       let userRepo = NewDbUserRepo (dbHandlers repo);
       (user, err) \<leftarrow> DbUserRepo_FindById userRepo w userId;
       if err \<noteq> None then Some (Library_zero, err)
       else do {
         let library = \<lparr>Library_Id = id', Library_User = user, Library_Games = []\<rparr>;
         let gameRepo = NewDbGameRepo (dbHandlers repo);
         let (row2, err) = Query (w h) (SelectGameIdsByLibrary (Library_Id library));
         if err \<noteq> None then Some (library, err)
         else defer_Close row2 (FindById_games gameRepo w row2 library err) } }) }"

definition DbLibraryRepo_libraryExisted :: "DbRepo \<Rightarrow> world \<Rightarrow> int \<Rightarrow> bool option" where
  "DbLibraryRepo_libraryExisted repo w id' = do {
     h \<leftarrow> dbHandler repo;
     let (row, _) = Query (w h) (SelectLibraryIdById id');
     defer_Close row (do {
       (has_row, row') \<leftarrow> Next row;
       Some has_row }) }"

section \<open>An example store\<close>

text \<open>
  The scenario of the specification's section 8, with all four repositories on one
  database: player 1 is alice, user 1 is alice_u, library 1 belongs to user 1 and
  holds the games Chess and Go, library 2 of the same user is empty. The engine
  refuses nothing, and the handler is the \<open>PostgresqlHandler\<close>.
\<close>

definition example_db :: db where
  "example_db =
     \<lparr>players = [(1, ''alice'')],
      users = [(1, ''alice_u'', 1, ''hi'')],
      libraries = [(1, 1), (2, 1)],
      games = [(1, 1, ''Chess'', ''X'', [0x39, 0x2E, 0x39, 0x39]), (2, 1, ''Go'', ''Y'', [])],
      players_seq = 1, users_seq = 1, libraries_seq = 2, games_seq = 2,
      query_fault = (\<lambda>s. None), exec_fault = (\<lambda>s. None), scalar_fault = (\<lambda>s. None),
      err_rows = NilRows\<rparr>"

definition example_handlers :: "string \<rightharpoonup> handle" where
  "example_handlers =
     [''DbUserRepo'' \<mapsto> 0, ''DbPlayerRepo'' \<mapsto> 0, ''DbLibraryRepo'' \<mapsto> 0,
      ''DbGameRepo'' \<mapsto> 0]"

definition example_world :: world where
  "example_world = (\<lambda>h. example_db)"


text \<open>The entities the example store holds.\<close>

definition alice :: Player where
  "alice = \<lparr>Player_Id = 1, Player_Name = ''alice''\<rparr>"

definition alice_u :: User where
  "alice_u = \<lparr>User_Id = 1, User_Name = ''alice_u'', User_Player = alice,
     User_PersonalInfo = ''hi''\<rparr>"

definition chess :: Game where
  "chess = \<lparr>Game_Id = 1, Game_LibraryId = 1, Game_Name = ''Chess'', Game_Producer = ''X'',
     Game_Value = [0x39, 0x2E, 0x39, 0x39]\<rparr>"

definition go :: Game where
  "go = \<lparr>Game_Id = 2, Game_LibraryId = 1, Game_Name = ''Go'', Game_Producer = ''Y'',
     Game_Value = []\<rparr>"

text \<open>Entities to store: a new player, a new user of player 1, a new game of library
  1, and a user who claims player id 2 under the name of player 1.\<close>

definition bob :: Player where
  "bob = \<lparr>Player_Id = 0, Player_Name = ''bob''\<rparr>"

definition newcomer :: User where
  "newcomer = \<lparr>User_Id = 0, User_Name = ''carol_u'', User_Player = alice,
     User_PersonalInfo = ''hello''\<rparr>"

definition shogi :: Game where
  "shogi = \<lparr>Game_Id = 0, Game_LibraryId = 1, Game_Name = ''Shogi'', Game_Producer = ''Z'',
     Game_Value = [0x00, 0xFF]\<rparr>"

definition stranger :: User where
  "stranger = \<lparr>User_Id = 0, User_Name = ''bob_u'',
     User_Player = \<lparr>Player_Id = 2, Player_Name = ''alice''\<rparr>, User_PersonalInfo = ''hi''\<rparr>"


definition flaky_world :: world where
  "flaky_world =
     (\<lambda>h. example_db\<lparr>query_fault :=
        (\<lambda>s. if s = SelectGameById 2 then Some (DriverError ''connection lost'') else None)\<rparr>)"


section \<open>The store primitives\<close>

lemma Query_ok:
  "query_fault d s = None \<Longrightarrow> Query d s = (Rows (select_rows d s) None False, None)"
  by (simp add: Query_def)

lemma Query_failed:
  "query_fault d s = Some e \<Longrightarrow> Query d s = (err_rows d, Some e)"
  by (simp add: Query_def)

lemma Execute_ok: "exec_fault d s = None \<Longrightarrow> Execute d s = (None, exec_effect s d)"
  by (simp add: Execute_def)

lemma filter_absent_users:
  "i \<notin> fst ` set xs \<Longrightarrow> filter (\<lambda>(j, n, p, info). j \<noteq> i) xs = xs"
  by (induction xs) auto

lemma filter_absent_pairs:
  "i \<notin> fst ` set xs \<Longrightarrow> filter (\<lambda>(j, u). j \<noteq> i) xs = xs"
  by (induction xs) auto

lemma filter_absent_games:
  "i \<notin> fst ` set xs \<Longrightarrow> filter (\<lambda>(j, lib, n, p, v). j \<noteq> i) xs = xs"
  by (induction xs) auto

lemma Next_fresh:
  "Next (Rows rs None False)
     = Some (rs \<noteq> [], case rs of [] \<Rightarrow> Rows [] None True | r # rs' \<Rightarrow> Rows rs' (Some r) False)"
  by (cases rs) simp_all

lemma filter_id_absent_pairs:
  "i \<notin> fst ` set xs \<Longrightarrow> filter (\<lambda>(j, n). j = i) xs = []"
  by (induction xs) auto

lemma filter_id_absent_users:
  "i \<notin> fst ` set xs \<Longrightarrow> filter (\<lambda>(j, n, p, info). j = i) xs = []"
  by (induction xs) auto

lemma filter_id_absent_games:
  "i \<notin> fst ` set xs \<Longrightarrow> filter (\<lambda>(j, lib, n, p, v). j = i) xs = []"
  by (induction xs) auto

lemma filter_id_name_nonempty:
  "(filter (\<lambda>(j, n). j = i \<and> n = name) xs \<noteq> []) = ((i, name) \<in> set xs)"
  by (induction xs) auto

lemma filter_name_nonempty:
  "(filter (\<lambda>(j, n). n = name) xs \<noteq> []) = (name \<in> snd ` set xs)"
  by (induction xs) auto

lemma filter_name_absent:
  "name \<notin> snd ` set xs \<Longrightarrow> filter (\<lambda>(j, n). n = name) xs = []"
  by (induction xs) auto

lemma QueryRow_frame:
  "players (snd (QueryRow d s)) = players d"
  "players_seq (snd (QueryRow d s)) = players_seq d"
  "query_fault (snd (QueryRow d s)) = query_fault d"
  "exec_fault (snd (QueryRow d s)) = exec_fault d"
  "scalar_fault (snd (QueryRow d s)) = scalar_fault d"
  "err_rows (snd (QueryRow d s)) = err_rows d"
  by (cases s; simp split: option.splits)+

lemma filter_fresh_games:
  "\<forall>r\<in>set xs. fst r < (i::int) \<Longrightarrow> filter (\<lambda>(j, lib, n, p, v). j = i) xs = []"
  by (induction xs) auto

lemma filter_fresh_users:
  "\<forall>r\<in>set xs. fst r < (i::int) \<Longrightarrow> filter (\<lambda>(j, n, p, info). j = i) xs = []"
  by (induction xs) auto

lemma filter_distinct_first:
  "distinct (map fst xs) \<Longrightarrow> (i, name) \<in> set xs \<Longrightarrow> filter (\<lambda>(j, n). j = i) xs = [(i, name)]"
  by (induction xs) (auto simp: filter_id_absent_pairs image_iff)

lemma filter_id_present:
  "(i, name) \<in> set xs \<Longrightarrow> \<exists>n rest. filter (\<lambda>(j, n). j = i) xs = (i, n) # rest"
  by (induction xs) auto

lemma defer_Close_Rows: "defer_Close (Rows ps c cl) body = body"
  by (cases body) (simp_all add: defer_Close_def)

lemma game_id_rows:
  "map (\<lambda>(j, lib, n, p, v). [VInt j]) xs = map (\<lambda>j. [VInt j]) (map fst xs)"
  by (induction xs) auto

section \<open>What the lookups return\<close>

lemma DbPlayerRepo_FindById_ok:
  assumes "dbHandler repo = Some h" "query_fault (w h) (SelectPlayerById i) = None"
  shows "DbPlayerRepo_FindById repo w i =
    Some (case filter (\<lambda>(j, n). j = i) (players (w h)) of
            [] \<Rightarrow> (Player_zero, Some (ScanError ''sql: Rows are closed''))
          | (j, n) # _ \<Rightarrow> (\<lparr>Player_Id = i, Player_Name = n\<rparr>, None))"
  using assms
  by (simp add: DbPlayerRepo_FindById_def Query_ok Next_fresh defer_Close_def Scan_string_def
      split: list.splits)

lemma DbGameRepo_FindById_ok:
  assumes "dbHandler repo = Some h" "query_fault (w h) (SelectGameById i) = None"
  shows "DbGameRepo_FindById repo w i =
    Some (case filter (\<lambda>(j, lib, n, p, v). j = i) (games (w h)) of
            [] \<Rightarrow> (Game_zero, Some (ScanError ''sql: Rows are closed''))
          | (j, lib, n, p, v) # _ \<Rightarrow>
              (\<lparr>Game_Id = i, Game_LibraryId = lib, Game_Name = n, Game_Producer = p,
                 Game_Value = v\<rparr>, None))"
  using assms
  by (simp add: DbGameRepo_FindById_def Query_ok Next_fresh defer_Close_def Scan_game_def
      split: list.splits)

lemma DbUserRepo_FindById_ok:
  assumes "dbHandler repo = Some h" "query_fault (w h) (SelectUserById i) = None"
  shows "DbUserRepo_FindById repo w i =
    (case filter (\<lambda>(j, n, p, info). j = i) (users (w h)) of
       [] \<Rightarrow> Some (User_zero, Some (ScanError ''sql: Rows are closed''))
     | (j, n, p, info) # _ \<Rightarrow>
         (case DbPlayerRepo_FindById (NewDbPlayerRepo (dbHandlers repo)) w p of
            None \<Rightarrow> None
          | Some (player, Some e) \<Rightarrow> Some (User_zero, Some e)
          | Some (player, None) \<Rightarrow>
              Some (\<lparr>User_Id = i, User_Name = n, User_Player = player,
                      User_PersonalInfo = info\<rparr>, None)))"
  using assms
  by (simp add: DbUserRepo_FindById_def Query_ok Next_fresh defer_Close_def Scan_user_def
      split: list.splits option.splits)

lemma DbPlayerRepo_NameMatchesId_ok:
  assumes "dbHandler repo = Some h" "query_fault (w h) (SelectPlayerByIdName i name) = None"
  shows "DbPlayerRepo_NameMatchesId repo w name i = Some ((i, name) \<in> set (players (w h)), None)"
  using assms
  by (simp add: DbPlayerRepo_NameMatchesId_def Query_ok Next_fresh defer_Close_def
      filter_id_name_nonempty del: Next.simps)

lemma DbPlayerRepo_playerExisted_ok:
  assumes "dbHandler repo = Some h" "query_fault (w h) (SelectPlayerByName name) = None"
  shows "DbPlayerRepo_playerExisted repo w name = Some (name \<in> snd ` set (players (w h)), None)"
  using assms
  by (simp add: DbPlayerRepo_playerExisted_def Query_ok Next_fresh defer_Close_def
      filter_name_nonempty del: Next.simps)

lemma DbPlayerRepo_Store_existing:
  assumes "dbHandler repo = Some h" "query_fault (w h) (SelectPlayerByName (Player_Name p)) = None"
    and "Player_Name p \<in> snd ` set (players (w h))"
  shows "DbPlayerRepo_Store repo w p = Some (None, w)"
  using assms by (simp add: DbPlayerRepo_Store_def DbPlayerRepo_playerExisted_ok)

lemma DbPlayerRepo_Store_new:
  assumes "dbHandler repo = Some h" "query_fault (w h) (SelectPlayerByName (Player_Name p)) = None"
    and "exec_fault (w h) (InsertPlayer (Player_Name p)) = None"
    and "Player_Name p \<notin> snd ` set (players (w h))"
  shows "DbPlayerRepo_Store repo w p
           = Some (None, w(h := exec_effect (InsertPlayer (Player_Name p)) (w h)))"
  using assms by (simp add: DbPlayerRepo_Store_def DbPlayerRepo_playerExisted_ok Execute_ok)

lemma DbPlayerRepo_NameMatchesId_True:
  assumes "dbHandler repo = Some h"
    and "DbPlayerRepo_NameMatchesId repo w name i = Some (True, None)"
  shows "(i, name) \<in> set (players (w h))"
proof (cases "query_fault (w h) (SelectPlayerByIdName i name)")
  case None
  with assms show ?thesis by (simp add: DbPlayerRepo_NameMatchesId_ok)
next
  case (Some e)
  with assms show ?thesis
    by (auto simp: DbPlayerRepo_NameMatchesId_def Query_failed defer_Close_def
        split: bind_splits)
qed

lemma DbPlayerRepo_Store_existing_any:
  assumes "dbHandler repo = Some h"
    and "Player_Name p \<in> snd ` set (players (w h))"
    and "DbPlayerRepo_Store repo w p = Some (e, w2)"
  shows "w2 = w"
proof (cases "query_fault (w h) (SelectPlayerByName (Player_Name p))")
  case None
  with assms show ?thesis by (simp add: DbPlayerRepo_Store_existing)
next
  case (Some e')
  with assms show ?thesis
    by (auto simp: DbPlayerRepo_Store_def DbPlayerRepo_playerExisted_def Query_failed
        defer_Close_def split: bind_splits)
qed

lemma DbLibraryRepo_FindById_ok:
  assumes "dbHandler repo = Some h" "query_fault (w h) (SelectLibraryById i) = None"
  shows "DbLibraryRepo_FindById repo w i =
    (case DbUserRepo_FindById (NewDbUserRepo (dbHandlers repo)) w
            (case filter (\<lambda>(j, u). j = i) (libraries (w h)) of [] \<Rightarrow> 0 | (j, u) # _ \<Rightarrow> u) of
       None \<Rightarrow> None
     | Some (user, Some e) \<Rightarrow> Some (Library_zero, Some e)
     | Some (user, None) \<Rightarrow>
         (case query_fault (w h) (SelectGameIdsByLibrary i) of
            Some e \<Rightarrow>
              Some (\<lparr>Library_Id = i, Library_User = user, Library_Games = []\<rparr>, Some e)
          | None \<Rightarrow>
              FindById_games (NewDbGameRepo (dbHandlers repo)) w
                (Rows (select_rows (w h) (SelectGameIdsByLibrary i)) None False)
                \<lparr>Library_Id = i, Library_User = user, Library_Games = []\<rparr> None))"
proof -
  have scan: "Scan_int (case take 1 (map (\<lambda>(j, u). [VInt u]) (filter (\<lambda>(j, u). j = i) xs)) of
                  [] \<Rightarrow> Rows [] None True | r # rs' \<Rightarrow> Rows rs' (Some r) False)
      = Some (case filter (\<lambda>(j, u). j = i) xs of [] \<Rightarrow> 0 | (j, u) # _ \<Rightarrow> u,
              case filter (\<lambda>(j, u). j = i) xs of [] \<Rightarrow> Some (ScanError ''sql: Rows are closed'')
                | _ \<Rightarrow> None)"
    for xs :: "(int \<times> int) list"
    by (cases "filter (\<lambda>(j, u). j = i) xs") (auto simp: Scan_int_def)
  let ?uid = "case filter (\<lambda>(j, u). j = i) (libraries (w h)) of [] \<Rightarrow> 0 | (j, u) # _ \<Rightarrow> u"
  let ?userRepo = "NewDbUserRepo (dbHandlers repo)"
  have step: "DbLibraryRepo_FindById repo w i =
      DbUserRepo_FindById ?userRepo w ?uid \<bind>
        (\<lambda>(user, err).
            if err \<noteq> None then Some (Library_zero, err)
            else let library = \<lparr>Library_Id = i, Library_User = user, Library_Games = []\<rparr>;
                     gameRepo = NewDbGameRepo (dbHandlers repo);
                     (row2, err) = Query (w h) (SelectGameIdsByLibrary (Library_Id library))
                 in if err \<noteq> None then Some (library, err)
                    else defer_Close row2 (FindById_games gameRepo w row2 library err))"
    using assms
    by (simp add: DbLibraryRepo_FindById_def Query_ok Next_fresh defer_Close_Rows scan
        del: Next.simps One_nat_def)
  show ?thesis
  proof (cases "DbUserRepo_FindById ?userRepo w ?uid")
    case None
    then show ?thesis by (simp add: step)
  next
    case (Some r)
    obtain user err where r: "r = (user, err)" by (cases r)
    show ?thesis
    proof (cases err)
      case (Some e)
      with \<open>DbUserRepo_FindById ?userRepo w ?uid = Some r\<close> r show ?thesis
        by (simp add: step)
    next
      case None
      with \<open>DbUserRepo_FindById ?userRepo w ?uid = Some r\<close> r show ?thesis
        by (cases "query_fault (w h) (SelectGameIdsByLibrary i)")
           (simp_all add: step Query_ok Query_failed defer_Close_Rows
            del: select_rows.simps)
    qed
  qed
qed


lemma FindById_games_all:
  assumes "\<forall>j\<in>set js. DbGameRepo_FindById gameRepo w j = Some (g j, None)"
  shows "FindById_games gameRepo w (Rows (map (\<lambda>j. [VInt j]) js) c False) library None
     = Some (library\<lparr>Library_Games := Library_Games library @ map g js\<rparr>, None)"
  using assms
proof (induction js arbitrary: c library)
  case Nil
  show ?case by (subst FindById_games.simps) simp
next
  case (Cons j js)
  have "FindById_games gameRepo w (Rows (map (\<lambda>j. [VInt j]) (j # js)) c False) library None
      = FindById_games gameRepo w (Rows (map (\<lambda>j. [VInt j]) js) (Some [VInt j]) False)
          (library\<lparr>Library_Games := Library_Games library @ [g j]\<rparr>) None"
    using Cons.prems by (subst FindById_games.simps) (simp add: Scan_int_def)
  also have "\<dots> = Some (library\<lparr>Library_Games := Library_Games library @ [g j]\<rparr>
      \<lparr>Library_Games := Library_Games (library\<lparr>Library_Games := Library_Games library @ [g j]\<rparr>)
          @ map g js\<rparr>, None)"
    using Cons.prems by (intro Cons.IH) simp
  finally show ?case by simp
qed


section \<open>The store invariant\<close>

text \<open>Every write of the repositories keeps every database of the world well
  formed: \<open>DbPlayerRepo.Store\<close> inserts a name only when the table lacks it, and an
  inserted row gets an id above the sequence.\<close>

lemma QueryRow_keeps_store_ok: "store_ok d \<Longrightarrow> store_ok (snd (QueryRow d s))"
  by (cases s) (fastforce simp: store_ok_def split: option.splits)+

lemma map_fst_update_info:
  "map (fst \<circ> (\<lambda>(j, n, p, info). if j = i then (j, n, p, info') else (j, n, p, info))) xs
     = map fst xs"
  by (induction xs) auto

lemma exec_effect_keeps_store_ok:
  assumes "store_ok d"
    and "\<And>name. s = InsertPlayer name \<Longrightarrow> name \<notin> snd ` set (players d)"
  shows "store_ok (exec_effect s d)"
proof (cases s)
  case (DeleteUser i)
  with assms(1) show ?thesis by (auto simp: store_ok_def distinct_map_filter)
next
  case (UpdateUserInfo info' i)
  with assms(1) show ?thesis
    by (auto simp: store_ok_def map_fst_update_info split: if_splits)
next
  case (InsertPlayer name)
  with assms show ?thesis by (fastforce simp: store_ok_def)
next
  case (DeleteLibrary i)
  with assms(1) show ?thesis by (auto simp: store_ok_def distinct_map_filter)
next
  case (DeleteGame i)
  with assms(1) show ?thesis by (auto simp: store_ok_def distinct_map_filter)
qed

lemma Execute_keeps_store_ok:
  assumes "store_ok d"
    and "\<And>name. s = InsertPlayer name \<Longrightarrow> name \<notin> snd ` set (players d)"
  shows "store_ok (snd (Execute d s))"
  using assms by (cases "exec_fault d s") (simp_all add: Execute_def exec_effect_keeps_store_ok)

lemma DbPlayerRepo_Store_keeps_store_ok:
  assumes "\<forall>h. store_ok (w h)" and "DbPlayerRepo_Store repo w player = Some (e, w')"
  shows "\<forall>h. store_ok (w' h)"
proof (cases "dbHandler repo")
  case None
  with assms(2) show ?thesis
    by (simp add: DbPlayerRepo_Store_def DbPlayerRepo_playerExisted_def)
next
  case (Some h)
  show ?thesis
  proof (cases "query_fault (w h) (SelectPlayerByName (Player_Name player))")
    case (Some e')
    with \<open>dbHandler repo = Some h\<close> assms have "w' = w"
      by (auto simp: DbPlayerRepo_Store_def DbPlayerRepo_playerExisted_def Query_failed
          defer_Close_def split: bind_splits)
    with assms(1) show ?thesis by simp
  next
    case None
    show ?thesis
    proof (cases "Player_Name player \<in> snd ` set (players (w h))")
      case True
      with \<open>dbHandler repo = Some h\<close> None assms have "w' = w"
        by (simp add: DbPlayerRepo_Store_existing)
      with assms(1) show ?thesis by simp
    next
      case False
      with \<open>dbHandler repo = Some h\<close> None assms(2)
      have "w' = w(h := snd (Execute (w h) (InsertPlayer (Player_Name player))))"
        by (auto simp: DbPlayerRepo_Store_def DbPlayerRepo_playerExisted_ok split: prod.splits)
      moreover have "store_ok (snd (Execute (w h) (InsertPlayer (Player_Name player))))"
        using assms(1) False by (intro Execute_keeps_store_ok) auto
      ultimately show ?thesis using assms(1) by simp
    qed
  qed
qed

lemma DbUserRepo_Store_keeps_store_ok:
  assumes "\<forall>h. store_ok (w h)" and "DbUserRepo_Store repo w user = Some (r, w')"
  shows "\<forall>h. store_ok (w' h)"
proof -
  let ?s = "InsertUser (User_Name user) (Player_Id (User_Player user)) (User_PersonalInfo user)"
  have ins: "\<forall>h'. store_ok ((w(h := d)) h')" if "QueryRow (w h) ?s = (x, d)" for h x d
    using assms(1) QueryRow_keeps_store_ok [of "w h" ?s] that by simp
  from assms(2) have "w' = w \<or> (\<exists>h x d. QueryRow (w h) ?s = (x, d) \<and> (w' = w(h := d)
      \<or> (\<exists>e. DbPlayerRepo_Store (NewDbPlayerRepo (dbHandlers repo))
                  (w(h := d)) (User_Player user) = Some (e, w'))))"
    by (auto simp: DbUserRepo_Store_def Let_def simp del: QueryRow.simps
        split: bind_splits if_splits prod.splits)
  then show ?thesis
  proof (elim disjE exE conjE)
    assume "w' = w"
    with assms(1) show ?thesis by simp
  next
    fix h x d assume "QueryRow (w h) ?s = (x, d)" "w' = w(h := d)"
    with ins show ?thesis by blast
  next
    fix h x d e
    assume "QueryRow (w h) ?s = (x, d)"
      and "DbPlayerRepo_Store (NewDbPlayerRepo (dbHandlers repo)) (w(h := d)) (User_Player user)
             = Some (e, w')"
    from ins [OF this(1)] this(2) show ?thesis
      by (rule DbPlayerRepo_Store_keeps_store_ok)
  qed
qed

lemma other_writes_keep_store_ok:
  assumes "\<forall>h. store_ok (w h)"
  shows "DbUserRepo_Remove repo w user = Some (e, w') \<Longrightarrow> \<forall>h. store_ok (w' h)"
    and "DbUserRepo_StoreInfo repo w user info = Some (e, w') \<Longrightarrow> \<forall>h. store_ok (w' h)"
    and "DbLibraryRepo_Store repo w library = Some (r, w') \<Longrightarrow> \<forall>h. store_ok (w' h)"
    and "DbLibraryRepo_Remove repo w library = Some (e, w') \<Longrightarrow> \<forall>h. store_ok (w' h)"
    and "DbGameRepo_Store repo w game = Some (r, w') \<Longrightarrow> \<forall>h. store_ok (w' h)"
    and "DbGameRepo_Remove repo w game = Some (e, w') \<Longrightarrow> \<forall>h. store_ok (w' h)"
proof -
  have ex: "store_ok d" if "\<And>name. s \<noteq> InsertPlayer name" "Execute (w h) s = (x, d)"
    for h s x d
    using assms that Execute_keeps_store_ok [of "w h" s] by auto
  have q: "store_ok d" if "QueryRow (w h) s = (x, d)" for h s x d
    using assms that QueryRow_keeps_store_ok [of "w h" s] by simp
  show "DbUserRepo_Remove repo w user = Some (e, w') \<Longrightarrow> \<forall>h. store_ok (w' h)"
    using assms ex [of "DeleteUser (User_Id user)"]
    by (auto simp: DbUserRepo_Remove_def split: bind_splits prod.splits)
  show "DbUserRepo_StoreInfo repo w user info = Some (e, w') \<Longrightarrow> \<forall>h. store_ok (w' h)"
    using assms ex [of "UpdateUserInfo info (User_Id user)"]
    by (auto simp: DbUserRepo_StoreInfo_def split: bind_splits prod.splits)
  show "DbLibraryRepo_Store repo w library = Some (r, w') \<Longrightarrow> \<forall>h. store_ok (w' h)"
    using assms q [of _ "InsertLibrary (User_Id (Library_User library))" r]
    by (auto simp: DbLibraryRepo_Store_def simp del: QueryRow.simps
        split: bind_splits prod.splits)
  show "DbLibraryRepo_Remove repo w library = Some (e, w') \<Longrightarrow> \<forall>h. store_ok (w' h)"
    using assms ex [of "DeleteLibrary (Library_Id library)"]
    by (auto simp: DbLibraryRepo_Remove_def split: bind_splits prod.splits)
  show "DbGameRepo_Store repo w game = Some (r, w') \<Longrightarrow> \<forall>h. store_ok (w' h)"
    using assms q [of _ "InsertGame (Game_LibraryId game) (Game_Name game) (Game_Producer game)
        (Game_Value game)" r]
    by (auto simp: DbGameRepo_Store_def simp del: QueryRow.simps
        split: bind_splits prod.splits)
  show "DbGameRepo_Remove repo w game = Some (e, w') \<Longrightarrow> \<forall>h. store_ok (w' h)"
    using assms ex [of "DeleteGame (Game_Id game)"]
    by (auto simp: DbGameRepo_Remove_def split: bind_splits prod.splits)
qed

lemma store_ok_unique_name:
  "store_ok d \<Longrightarrow> length (filter (\<lambda>(j, n). n = name) (players d)) \<le> 1"
proof -
  have "distinct (map snd xs) \<Longrightarrow> length (filter (\<lambda>(j, n). n = name) xs) \<le> 1"
    for xs :: "(int \<times> string) list"
    by (induction xs) (auto simp: filter_name_absent)
  then show "store_ok d \<Longrightarrow> ?thesis" by (simp add: store_ok_def)
qed

lemma store_ok_example: "store_ok example_db"
  by (simp add: store_ok_def example_db_def)

section \<open>Removing what is not there\<close>

text \<open>
  C3. When no row of the table has the entity's id and the engine does not refuse
  the \<open>DELETE\<close>, \<open>Remove\<close> of the User, Library and Game repositories returns a nil
  error and leaves the whole store as it was.
\<close>

theorem Remove_nonexistent_is_noop:
  assumes "dbHandler repo = Some h"
  shows "(User_Id user \<notin> fst ` set (users (w h))
            \<and> exec_fault (w h) (DeleteUser (User_Id user)) = None
           \<longrightarrow> DbUserRepo_Remove repo w user = Some (None, w))
       \<and> (Library_Id library \<notin> fst ` set (libraries (w h))
            \<and> exec_fault (w h) (DeleteLibrary (Library_Id library)) = None
           \<longrightarrow> DbLibraryRepo_Remove repo w library = Some (None, w))
       \<and> (Game_Id game \<notin> fst ` set (games (w h))
            \<and> exec_fault (w h) (DeleteGame (Game_Id game)) = None
           \<longrightarrow> DbGameRepo_Remove repo w game = Some (None, w))"
  using assms
  by (simp add: DbUserRepo_Remove_def DbLibraryRepo_Remove_def DbGameRepo_Remove_def
      Execute_ok filter_absent_users filter_absent_pairs filter_absent_games)

theorem Remove_nonexistent_is_noop_witness:
  "DbUserRepo_Remove (NewDbUserRepo example_handlers) example_world
      (User_zero\<lparr>User_Id := 7\<rparr>) = Some (None, example_world)
   \<and> DbLibraryRepo_Remove (NewDbLibraryRepo example_handlers) example_world
      (Library_zero\<lparr>Library_Id := 7\<rparr>) = Some (None, example_world)
   \<and> DbGameRepo_Remove (NewDbGameRepo example_handlers) example_world
      (Game_zero\<lparr>Game_Id := 7\<rparr>) = Some (None, example_world)"
  using
    Remove_nonexistent_is_noop [of "NewDbUserRepo example_handlers" 0
      "User_zero\<lparr>User_Id := 7\<rparr>" example_world Library_zero Game_zero]
    Remove_nonexistent_is_noop [of "NewDbLibraryRepo example_handlers" 0
      User_zero example_world "Library_zero\<lparr>Library_Id := 7\<rparr>" Game_zero]
    Remove_nonexistent_is_noop [of "NewDbGameRepo example_handlers" 0
      User_zero example_world Library_zero "Game_zero\<lparr>Game_Id := 7\<rparr>"]
  by (simp add: NewDbUserRepo_def NewDbLibraryRepo_def NewDbGameRepo_def
      example_handlers_def example_world_def example_db_def
      User_zero_def Library_zero_def Game_zero_def)

section \<open>Existence checks on a failed query\<close>



section \<open>Looking up an id that is not stored\<close>

text \<open>
  C4 (as the claim states it, refuted). For an id without a row the single-row
  \<open>FindById\<close> has no "not found" error of its own: here \<open>DbPlayerRepo.FindById\<close> on
  the example store, asked for id 7, returns the zero Player with the very error
  \<open>Scan\<close> raised on the exhausted cursor.
\<close>

theorem FindById_not_found_counterexample:
  "(case DbPlayerRepo_FindById (NewDbPlayerRepo example_handlers) example_world 7 of
      Some (player, Some e) \<Rightarrow> player = Player_zero \<and> is_scan_failure e
    | _ \<Rightarrow> False)"
  by (simp add: DbPlayerRepo_FindById_def NewDbPlayerRepo_def example_handlers_def
      example_world_def example_db_def Query_def defer_Close_def Scan_string_def
      is_scan_failure_def)

text \<open>
  C4 (amended). For every id with no matching row, when the engine answers the
  query, \<open>FindById\<close> of the Player, User and Game repositories returns the zero-value
  entity together with the error of \<open>Scan\<close> on the exhausted cursor, which for
  \<open>sql.Rows\<close> is "sql: Rows are closed".
\<close>

theorem FindById_missing_row_scan_error:
  assumes "dbHandler repo = Some h"
  shows "(id' \<notin> fst ` set (players (w h)) \<and> query_fault (w h) (SelectPlayerById id') = None
           \<longrightarrow> DbPlayerRepo_FindById repo w id'
               = Some (Player_zero, Some (ScanError ''sql: Rows are closed'')))
       \<and> (id' \<notin> fst ` set (users (w h)) \<and> query_fault (w h) (SelectUserById id') = None
           \<longrightarrow> DbUserRepo_FindById repo w id'
               = Some (User_zero, Some (ScanError ''sql: Rows are closed'')))
       \<and> (id' \<notin> fst ` set (games (w h)) \<and> query_fault (w h) (SelectGameById id') = None
           \<longrightarrow> DbGameRepo_FindById repo w id'
               = Some (Game_zero, Some (ScanError ''sql: Rows are closed'')))"
  using assms
  by (simp add: DbPlayerRepo_FindById_ok DbUserRepo_FindById_ok DbGameRepo_FindById_ok
      filter_id_absent_pairs filter_id_absent_users filter_id_absent_games)

theorem FindById_missing_row_scan_error_witness:
  "DbPlayerRepo_FindById (NewDbPlayerRepo example_handlers) example_world 7
     = Some (Player_zero, Some (ScanError ''sql: Rows are closed''))
   \<and> DbUserRepo_FindById (NewDbUserRepo example_handlers) example_world 7
     = Some (User_zero, Some (ScanError ''sql: Rows are closed''))
   \<and> DbGameRepo_FindById (NewDbGameRepo example_handlers) example_world 7
     = Some (Game_zero, Some (ScanError ''sql: Rows are closed''))"
  using
    FindById_missing_row_scan_error [of "NewDbPlayerRepo example_handlers" 0 7 example_world]
    FindById_missing_row_scan_error [of "NewDbUserRepo example_handlers" 0 7 example_world]
    FindById_missing_row_scan_error [of "NewDbGameRepo example_handlers" 0 7 example_world]
  by (simp add: NewDbUserRepo_def NewDbPlayerRepo_def NewDbGameRepo_def example_handlers_def
      example_world_def example_db_def)

section \<open>Storing a user whose player does not match\<close>

text \<open>
  C1 (as the claim states it, refuted). The validation error of
  \<open>DbUserRepo.Store\<close> does not carry the message "player name does not match id":
  the message of the code is capitalised differently.
\<close>

theorem Store_user_message_counterexample:
  "map_option (snd \<circ> fst) (DbUserRepo_Store (NewDbUserRepo example_handlers) example_world stranger)
     \<noteq> Some (Some (Errorf ''player name does not match id''))"
  by (simp add: DbUserRepo_Store_def DbPlayerRepo_NameMatchesId_def NewDbUserRepo_def
      NewDbPlayerRepo_def example_handlers_def example_world_def example_db_def stranger_def
      Query_def defer_Close_def)

text \<open>
  C1 (amended). For every User whose Player name and id do not both match a row of
  the players table, when the engine answers the match query, \<open>DbUserRepo.Store\<close>
  returns id 0 and the validation error "Player name does not match Id", and the
  whole store, so also the users table, is as it was.
\<close>

theorem Store_user_mismatch_rejected:
  assumes "dbHandlers repo ''DbPlayerRepo'' = Some hp"
    and "query_fault (w hp) (SelectPlayerByIdName (Player_Id (User_Player user))
           (Player_Name (User_Player user))) = None"
    and "(Player_Id (User_Player user), Player_Name (User_Player user)) \<notin> set (players (w hp))"
  shows "DbUserRepo_Store repo w user
           = Some ((0, Some (Errorf ''Player name does not match Id'')), w)"
  using assms
  by (simp add: DbUserRepo_Store_def DbPlayerRepo_NameMatchesId_ok NewDbPlayerRepo_def)

theorem Store_user_mismatch_rejected_witness:
  "DbUserRepo_Store (NewDbUserRepo example_handlers) example_world stranger
     = Some ((0, Some (Errorf ''Player name does not match Id'')), example_world)"
  using Store_user_mismatch_rejected [of "NewDbUserRepo example_handlers" 0 example_world stranger]
  by (simp add: NewDbUserRepo_def example_handlers_def example_world_def example_db_def
      stranger_def)

section \<open>Storing a player twice\<close>

text \<open>
  C2. \<open>DbPlayerRepo.Store\<close> is idempotent by name. When the engine answers the
  existence query and accepts the insert, and the table holds at most one row of the
  player's name, storing the player and storing it again both succeed, the second
  call changes nothing, and the table then holds exactly one row of that name. And
  storing a player whose name is already in the table succeeds and leaves the whole
  store as it was: no insert, and no update of the existing row.
\<close>

theorem Player_Store_idempotent_by_name:
  assumes "dbHandler repo = Some h"
    and "query_fault (w h) (SelectPlayerByName (Player_Name p)) = None"
  shows "(exec_fault (w h) (InsertPlayer (Player_Name p)) = None
            \<and> length (filter (\<lambda>(j, n). n = Player_Name p) (players (w h))) \<le> 1
          \<longrightarrow> (\<exists>w1. DbPlayerRepo_Store repo w p = Some (None, w1)
                  \<and> DbPlayerRepo_Store repo w1 p = Some (None, w1)
                  \<and> length (filter (\<lambda>(j, n). n = Player_Name p) (players (w1 h))) = 1))
       \<and> (Player_Name p \<in> snd ` set (players (w h))
          \<longrightarrow> DbPlayerRepo_Store repo w p = Some (None, w))"
proof (intro conjI impI)
  assume ok: "exec_fault (w h) (InsertPlayer (Player_Name p)) = None
            \<and> length (filter (\<lambda>(j, n). n = Player_Name p) (players (w h))) \<le> 1"
  show "\<exists>w1. DbPlayerRepo_Store repo w p = Some (None, w1)
          \<and> DbPlayerRepo_Store repo w1 p = Some (None, w1)
          \<and> length (filter (\<lambda>(j, n). n = Player_Name p) (players (w1 h))) = 1"
  proof (cases "Player_Name p \<in> snd ` set (players (w h))")
    case True
    then have "filter (\<lambda>(j, n). n = Player_Name p) (players (w h)) \<noteq> []"
      by (simp add: filter_name_nonempty)
    then have "length (filter (\<lambda>(j, n). n = Player_Name p) (players (w h))) = 1"
      using ok by (cases "filter (\<lambda>(j, n). n = Player_Name p) (players (w h))") auto
    with True assms show ?thesis
      by (auto simp: DbPlayerRepo_Store_existing)
  next
    case False
    let ?w1 = "w(h := exec_effect (InsertPlayer (Player_Name p)) (w h))"
    have first: "DbPlayerRepo_Store repo w p = Some (None, ?w1)"
      using assms ok False by (simp add: DbPlayerRepo_Store_new)
    have "Player_Name p \<in> snd ` set (players (?w1 h))" by simp
    moreover have "query_fault (?w1 h) (SelectPlayerByName (Player_Name p)) = None"
      using assms by simp
    ultimately have second: "DbPlayerRepo_Store repo ?w1 p = Some (None, ?w1)"
      using assms(1) by (rule_tac DbPlayerRepo_Store_existing) 
    have "length (filter (\<lambda>(j, n). n = Player_Name p) (players (?w1 h))) = 1"
      using False by (simp add: filter_name_absent)
    with first second show ?thesis by blast
  qed
next
  assume "Player_Name p \<in> snd ` set (players (w h))"
  with assms show "DbPlayerRepo_Store repo w p = Some (None, w)"
    by (simp add: DbPlayerRepo_Store_existing)
qed


theorem Player_Store_idempotent_by_name_witness:
  "(\<exists>w1. DbPlayerRepo_Store (NewDbPlayerRepo example_handlers) example_world bob = Some (None, w1)
        \<and> DbPlayerRepo_Store (NewDbPlayerRepo example_handlers) w1 bob = Some (None, w1)
        \<and> length (filter (\<lambda>(j, n). n = ''bob'') (players (w1 0))) = 1)
   \<and> DbPlayerRepo_Store (NewDbPlayerRepo example_handlers) example_world alice
        = Some (None, example_world)"
  using
    Player_Store_idempotent_by_name [of "NewDbPlayerRepo example_handlers" 0 example_world bob]
    Player_Store_idempotent_by_name [of "NewDbPlayerRepo example_handlers" 0 example_world alice]
  by (simp add: NewDbPlayerRepo_def example_handlers_def example_world_def example_db_def
      bob_def alice_def)

section \<open>The player store at the end of storing a user\<close>

text \<open>
  C8. In \<open>DbUserRepo.Store\<close>, once \<open>NameMatchesId\<close> has returned true and a nil
  error, the call of \<open>DbPlayerRepo.Store\<close> that ends the method inserts nothing.
  \<open>w1\<close> is the world after the \<open>INSERT INTO users\<close>: whatever the trailing call
  returns there, it returns \<open>w1\<close> unchanged; when the engine answers the existence
  query, \<open>playerExisted\<close> is true and the call returns a nil error; and the players
  table and its sequence after \<open>DbUserRepo.Store\<close> are those before it.
\<close>

theorem Store_user_trailing_player_Store_is_noop:
  assumes "dbHandler repo = Some hu"
    and "dbHandlers repo ''DbPlayerRepo'' = Some hp"
    and "DbPlayerRepo_NameMatchesId (NewDbPlayerRepo (dbHandlers repo)) w
           (Player_Name (User_Player user)) (Player_Id (User_Player user)) = Some (True, None)"
    and "w1 = w(hu := snd (QueryRow (w hu) (InsertUser (User_Name user)
           (Player_Id (User_Player user)) (User_PersonalInfo user))))"
  shows "(DbPlayerRepo_Store (NewDbPlayerRepo (dbHandlers repo)) w1 (User_Player user)
            = Some (e, w2) \<longrightarrow> w2 = w1)
       \<and> (query_fault (w hp) (SelectPlayerByName (Player_Name (User_Player user))) = None
          \<longrightarrow> DbPlayerRepo_playerExisted (NewDbPlayerRepo (dbHandlers repo)) w1
                (Player_Name (User_Player user)) = Some (True, None)
            \<and> DbPlayerRepo_Store (NewDbPlayerRepo (dbHandlers repo)) w1 (User_Player user)
                = Some (None, w1))
       \<and> (DbUserRepo_Store repo w user = Some (r, w')
          \<longrightarrow> players (w' hp) = players (w hp) \<and> players_seq (w' hp) = players_seq (w hp))"
proof -
  let ?playerRepo = "NewDbPlayerRepo (dbHandlers repo)"
  let ?name = "Player_Name (User_Player user)"
  have hp: "dbHandler ?playerRepo = Some hp"
    using assms(2) by (simp add: NewDbPlayerRepo_def)
  have row: "(Player_Id (User_Player user), ?name) \<in> set (players (w hp))"
    using hp assms(3) by (rule DbPlayerRepo_NameMatchesId_True)
  have same: "players (w1 hp) = players (w hp)" "players_seq (w1 hp) = players_seq (w hp)"
    "query_fault (w1 hp) = query_fault (w hp)"
    using assms(4) by (simp_all add: QueryRow_frame del: QueryRow.simps)
  have existed: "?name \<in> snd ` set (players (w1 hp))"
    using row same by force
  have noop: "w2 = w1" if "DbPlayerRepo_Store ?playerRepo w1 (User_Player user) = Some (e, w2)"
    for e w2
    using hp existed that by (rule DbPlayerRepo_Store_existing_any)
  have healthy: "DbPlayerRepo_playerExisted ?playerRepo w1 ?name = Some (True, None)
      \<and> DbPlayerRepo_Store ?playerRepo w1 (User_Player user) = Some (None, w1)"
    if "query_fault (w hp) (SelectPlayerByName ?name) = None"
    using hp existed that same
    by (simp add: DbPlayerRepo_playerExisted_ok DbPlayerRepo_Store_existing)
  have whole: "players (w' hp) = players (w hp) \<and> players_seq (w' hp) = players_seq (w hp)"
    if "DbUserRepo_Store repo w user = Some (r, w')"
  proof -
    from that assms(1,3) have "w' = w1 \<or>
        (\<exists>e. DbPlayerRepo_Store ?playerRepo w1 (User_Player user) = Some (e, w'))"
      unfolding assms(4)
      by (auto simp: DbUserRepo_Store_def Let_def simp del: QueryRow.simps
          split: bind_splits if_splits prod.splits)
    with noop have "w' = w1" by blast
    with same show ?thesis by simp
  qed
  from noop healthy whole show ?thesis by blast
qed


theorem Store_user_trailing_player_Store_is_noop_witness:
  "DbPlayerRepo_playerExisted (NewDbPlayerRepo example_handlers)
      (example_world(0 := snd (QueryRow example_db (InsertUser ''carol_u'' 1 ''hello''))))
      ''alice'' = Some (True, None)
   \<and> DbPlayerRepo_Store (NewDbPlayerRepo example_handlers)
      (example_world(0 := snd (QueryRow example_db (InsertUser ''carol_u'' 1 ''hello''))))
      alice
     = Some (None, example_world(0 := snd (QueryRow example_db (InsertUser ''carol_u'' 1 ''hello''))))
   \<and> fst (the (DbUserRepo_Store (NewDbUserRepo example_handlers) example_world newcomer))
     = (2, None)
   \<and> players (snd (the (DbUserRepo_Store (NewDbUserRepo example_handlers) example_world
        newcomer)) 0) = [(1, ''alice'')]"
  using Store_user_trailing_player_Store_is_noop [of "NewDbUserRepo example_handlers" 0 0
      example_world newcomer
      "example_world(0 := snd (QueryRow example_db (InsertUser ''carol_u'' 1 ''hello'')))"
      None
      "example_world(0 := snd (QueryRow example_db (InsertUser ''carol_u'' 1 ''hello'')))"
      "fst (the (DbUserRepo_Store (NewDbUserRepo example_handlers) example_world newcomer))"
      "snd (the (DbUserRepo_Store (NewDbUserRepo example_handlers) example_world newcomer))"]
  by (simp add: NewDbUserRepo_def NewDbPlayerRepo_def example_handlers_def example_world_def
      newcomer_def alice_def DbPlayerRepo_NameMatchesId_def DbUserRepo_Store_def
      DbPlayerRepo_Store_def DbPlayerRepo_playerExisted_def Query_def defer_Close_def
      example_db_def)

section \<open>Finding what was stored\<close>

lemma Game_round_trip:
  assumes "dbHandler repo = Some h"
    and "\<forall>r\<in>set (games (w h)). fst r \<le> games_seq (w h)"
    and "DbGameRepo_Store repo w game = Some ((id', None), w')"
    and "query_fault (w h) (SelectGameById id') = None"
  shows "DbGameRepo_FindById repo w' id' = Some (game\<lparr>Game_Id := id'\<rparr>, None)"
proof -
  let ?s = "InsertGame (Game_LibraryId game) (Game_Name game) (Game_Producer game) (Game_Value game)"
  have ok: "scalar_fault (w h) ?s = None"
    using assms(1,3) by (auto simp: DbGameRepo_Store_def split: option.splits)
  then have id': "id' = games_seq (w h) + 1"
    and w': "w' = w(h := (w h)\<lparr>games := games (w h) @ [(games_seq (w h) + 1, Game_LibraryId game,
               Game_Name game, Game_Producer game, Game_Value game)],
             games_seq := games_seq (w h) + 1\<rparr>)"
    using assms(1,3) by (auto simp: DbGameRepo_Store_def)
  have "\<forall>r\<in>set (games (w h)). fst r < id'"
    using assms(2) id' by fastforce
  then have old: "filter (\<lambda>(j, lib, n, p, v). j = id') (games (w h)) = []"
    by (rule filter_fresh_games)
  have "query_fault (w' h) (SelectGameById id') = None"
    using assms(4) w' by simp
  with assms(1) have "DbGameRepo_FindById repo w' id' =
      Some (case filter (\<lambda>(j, lib, n, p, v). j = id') (games (w' h)) of
            [] \<Rightarrow> (Game_zero, Some (ScanError ''sql: Rows are closed''))
          | (j, lib, n, p, v) # _ \<Rightarrow>
              (\<lparr>Game_Id = id', Game_LibraryId = lib, Game_Name = n, Game_Producer = p,
                 Game_Value = v\<rparr>, None))"
    by (rule DbGameRepo_FindById_ok)
  also have "filter (\<lambda>(j, lib, n, p, v). j = id') (games (w' h))
      = [(id', Game_LibraryId game, Game_Name game, Game_Producer game, Game_Value game)]"
    using old by (simp add: w' id')
  finally show ?thesis by simp
qed

lemma User_round_trip:
  assumes "dbHandler repo = Some hu"
    and "dbHandlers repo ''DbPlayerRepo'' = Some hp"
    and "\<forall>r\<in>set (users (w hu)). fst r \<le> users_seq (w hu)"
    and "DbUserRepo_Store repo w user = Some ((id', None), w')"
    and "query_fault (w hu) (SelectUserById id') = None"
    and "query_fault (w hp) (SelectPlayerById (Player_Id (User_Player user))) = None"
  shows "\<exists>n. DbUserRepo_FindById repo w' id' =
           Some (user\<lparr>User_Id := id', User_Player :=
                   \<lparr>Player_Id = Player_Id (User_Player user), Player_Name = n\<rparr>\<rparr>, None)
         \<and> (distinct (map fst (players (w hp))) \<longrightarrow> n = Player_Name (User_Player user))"
proof -
  let ?playerRepo = "NewDbPlayerRepo (dbHandlers repo)"
  let ?pid = "Player_Id (User_Player user)"
  let ?s = "InsertUser (User_Name user) ?pid (User_PersonalInfo user)"
  let ?w1 = "w(hu := snd (QueryRow (w hu) ?s))"
  have hp: "dbHandler ?playerRepo = Some hp"
    using assms(2) by (simp add: NewDbPlayerRepo_def)
  have matched: "DbPlayerRepo_NameMatchesId ?playerRepo w (Player_Name (User_Player user)) ?pid
      = Some (True, None)"
    using assms(4)
    by (auto simp: DbUserRepo_Store_def Let_def split: bind_splits if_splits)
  have row: "(?pid, Player_Name (User_Player user)) \<in> set (players (w hp))"
    using hp matched by (rule DbPlayerRepo_NameMatchesId_True)
  have ins: "fst (QueryRow (w hu) ?s) = (id', None)"
    and tail: "\<exists>e. DbPlayerRepo_Store ?playerRepo ?w1 (User_Player user) = Some (e, w')"
    using assms(1,4) matched
    by (auto simp: DbUserRepo_Store_def Let_def simp del: QueryRow.simps
        split: bind_splits if_splits prod.splits)
  have same: "players (?w1 hp) = players (w hp)"
    "query_fault (?w1 hp) = query_fault (w hp)" "query_fault (?w1 hu) = query_fault (w hu)"
    by (simp_all add: QueryRow_frame del: QueryRow.simps)
  have existed: "Player_Name (User_Player user) \<in> snd ` set (players (?w1 hp))"
    using row same by force
  from tail obtain e where "DbPlayerRepo_Store ?playerRepo ?w1 (User_Player user) = Some (e, w')"
    by blast
  with hp existed have w': "w' = ?w1"
    by (rule DbPlayerRepo_Store_existing_any)
  have ok: "scalar_fault (w hu) ?s = None"
    using ins by (auto split: option.splits)
  then have id': "id' = users_seq (w hu) + 1"
    and us: "users (?w1 hu) = users (w hu) @ [(id', User_Name user, ?pid, User_PersonalInfo user)]"
    using ins by auto
  have "\<forall>r\<in>set (users (w hu)). fst r < id'"
    using assms(3) id' by fastforce
  then have old: "filter (\<lambda>(j, n, p, info). j = id') (users (w hu)) = []"
    by (rule filter_fresh_users)
  have found: "filter (\<lambda>(j, n, p, info). j = id') (users (w' hu))
      = [(id', User_Name user, ?pid, User_PersonalInfo user)]"
    using old us w' by simp
  obtain n rest where first: "filter (\<lambda>(j, n). j = ?pid) (players (w hp)) = (?pid, n) # rest"
    using filter_id_present [OF row] by blast
  have player: "DbPlayerRepo_FindById ?playerRepo w' ?pid
      = Some (\<lparr>Player_Id = ?pid, Player_Name = n\<rparr>, None)"
    using hp assms(6) same first w' by (simp add: DbPlayerRepo_FindById_ok)
  have "DbUserRepo_FindById repo w' id' =
      Some (\<lparr>User_Id = id', User_Name = User_Name user,
               User_Player = \<lparr>Player_Id = ?pid, Player_Name = n\<rparr>,
               User_PersonalInfo = User_PersonalInfo user\<rparr>, None)"
    using assms(1,5) same w' found player by (simp add: DbUserRepo_FindById_ok)
  also have "\<lparr>User_Id = id', User_Name = User_Name user,
               User_Player = \<lparr>Player_Id = ?pid, Player_Name = n\<rparr>,
               User_PersonalInfo = User_PersonalInfo user\<rparr>
      = user\<lparr>User_Id := id', User_Player := \<lparr>Player_Id = ?pid, Player_Name = n\<rparr>\<rparr>"
    by (cases user) simp
  finally have found_user: "DbUserRepo_FindById repo w' id' =
      Some (user\<lparr>User_Id := id', User_Player := \<lparr>Player_Id = ?pid, Player_Name = n\<rparr>\<rparr>,
        None)" .
  have "n = Player_Name (User_Player user)" if "distinct (map fst (players (w hp)))"
    using filter_distinct_first [OF that row] first by simp
  with found_user show ?thesis by (intro exI [of _ n]) simp
qed

lemma Player_round_trip:
  assumes "dbHandler repo = Some h"
    and "distinct (map fst (players (w h)))"
    and "\<forall>r\<in>set (players (w h)). fst r \<le> players_seq (w h)"
    and "DbPlayerRepo_Store repo w player = Some (None, w')"
  shows "\<exists>i. (i, Player_Name player) \<in> set (players (w' h))
           \<and> (query_fault (w h) (SelectPlayerById i) = None
              \<longrightarrow> DbPlayerRepo_FindById repo w' i
                  = Some (\<lparr>Player_Id = i, Player_Name = Player_Name player\<rparr>, None))"
proof -
  have q: "query_fault (w h) (SelectPlayerByName (Player_Name player)) = None"
    using assms(1,4)
    by (cases "query_fault (w h) (SelectPlayerByName (Player_Name player))")
       (auto simp: DbPlayerRepo_Store_def DbPlayerRepo_playerExisted_def Query_failed
        defer_Close_def split: bind_splits)
  have facts: "distinct (map fst (players (w' h)))
      \<and> Player_Name player \<in> snd ` set (players (w' h))
      \<and> query_fault (w' h) = query_fault (w h)"
  proof (cases "Player_Name player \<in> snd ` set (players (w h))")
    case True
    with assms q have "w' = w" by (simp add: DbPlayerRepo_Store_existing)
    with True assms(2) show ?thesis by simp
  next
    case False
    with assms(1,4) q have "exec_fault (w h) (InsertPlayer (Player_Name player)) = None"
      by (auto simp: DbPlayerRepo_Store_def DbPlayerRepo_playerExisted_ok Execute_def
          split: option.splits)
    with assms(1,4) q False
    have "w' = w(h := exec_effect (InsertPlayer (Player_Name player)) (w h))"
      by (simp add: DbPlayerRepo_Store_new)
    moreover have "players_seq (w h) + 1 \<notin> fst ` set (players (w h))"
      using assms(3) by fastforce
    ultimately show ?thesis using assms(2) by simp
  qed
  then obtain i where i: "(i, Player_Name player) \<in> set (players (w' h))" by force
  have "DbPlayerRepo_FindById repo w' i
      = Some (\<lparr>Player_Id = i, Player_Name = Player_Name player\<rparr>, None)"
    if "query_fault (w h) (SelectPlayerById i) = None"
    using assms(1) that facts filter_distinct_first [of "players (w' h)" i "Player_Name player"] i
    by (simp add: DbPlayerRepo_FindById_ok)
  with i show ?thesis by (intro exI [of _ i]) simp
qed


text \<open>
  C6. \<open>FindById\<close> after \<open>Store\<close> returns the stored scalar fields exactly, in a
  table whose ids do not exceed its sequence. A Player that \<open>Store\<close> accepted has a
  row under some id, and \<open>FindById\<close> of that id returns the Player's name (the
  players' ids being distinct). A User stored under \<open>uid\<close> is found under \<open>uid\<close>
  with its name and personal info, and with the Player of its player id (the very
  Player when the players' ids are distinct). A Game stored under \<open>gid\<close> is found
  under \<open>gid\<close> with its library id, name, producer and value, byte for byte. The
  engine is taken to answer the lookups.
\<close>

theorem FindById_after_Store_round_trip:
  "(dbHandler prepo = Some hp
      \<and> distinct (map fst (players (pw hp)))
      \<and> (\<forall>r\<in>set (players (pw hp)). fst r \<le> players_seq (pw hp))
      \<and> DbPlayerRepo_Store prepo pw player = Some (None, pw')
     \<longrightarrow> (\<exists>i. (i, Player_Name player) \<in> set (players (pw' hp))
            \<and> (query_fault (pw hp) (SelectPlayerById i) = None
               \<longrightarrow> DbPlayerRepo_FindById prepo pw' i
                   = Some (\<lparr>Player_Id = i, Player_Name = Player_Name player\<rparr>, None))))
   \<and> (dbHandler urepo = Some hu
      \<and> dbHandlers urepo ''DbPlayerRepo'' = Some hup
      \<and> (\<forall>r\<in>set (users (uw hu)). fst r \<le> users_seq (uw hu))
      \<and> DbUserRepo_Store urepo uw user = Some ((uid, None), uw')
      \<and> query_fault (uw hu) (SelectUserById uid) = None
      \<and> query_fault (uw hup) (SelectPlayerById (Player_Id (User_Player user))) = None
     \<longrightarrow> (\<exists>n. DbUserRepo_FindById urepo uw' uid =
               Some (user\<lparr>User_Id := uid, User_Player :=
                       \<lparr>Player_Id = Player_Id (User_Player user), Player_Name = n\<rparr>\<rparr>, None)
            \<and> (distinct (map fst (players (uw hup))) \<longrightarrow> n = Player_Name (User_Player user))))
   \<and> (dbHandler grepo = Some hg
      \<and> (\<forall>r\<in>set (games (gw hg)). fst r \<le> games_seq (gw hg))
      \<and> DbGameRepo_Store grepo gw game = Some ((gid, None), gw')
      \<and> query_fault (gw hg) (SelectGameById gid) = None
     \<longrightarrow> DbGameRepo_FindById grepo gw' gid = Some (game\<lparr>Game_Id := gid\<rparr>, None))"
  using Player_round_trip [of prepo hp pw player pw']
    User_round_trip [of urepo hu hup uw user uid uw']
    Game_round_trip [of grepo hg gw game gid gw']
  by blast

theorem FindById_after_Store_round_trip_witness:
  "(\<exists>i. (i, ''bob'') \<in> set (players
            (snd (the (DbPlayerRepo_Store (NewDbPlayerRepo example_handlers) example_world bob)) 0))
       \<and> DbPlayerRepo_FindById (NewDbPlayerRepo example_handlers)
            (snd (the (DbPlayerRepo_Store (NewDbPlayerRepo example_handlers) example_world bob))) i
          = Some (\<lparr>Player_Id = i, Player_Name = ''bob''\<rparr>, None))
   \<and> DbUserRepo_FindById (NewDbUserRepo example_handlers)
        (snd (the (DbUserRepo_Store (NewDbUserRepo example_handlers) example_world newcomer))) 2
      = Some (newcomer\<lparr>User_Id := 2\<rparr>, None)
   \<and> DbGameRepo_FindById (NewDbGameRepo example_handlers)
        (snd (the (DbGameRepo_Store (NewDbGameRepo example_handlers) example_world shogi))) 3
      = Some (shogi\<lparr>Game_Id := 3\<rparr>, None)"
  using FindById_after_Store_round_trip [of
      "NewDbPlayerRepo example_handlers" 0 example_world bob
      "snd (the (DbPlayerRepo_Store (NewDbPlayerRepo example_handlers) example_world bob))"
      "NewDbUserRepo example_handlers" 0 0 example_world newcomer 2
      "snd (the (DbUserRepo_Store (NewDbUserRepo example_handlers) example_world newcomer))"
      "NewDbGameRepo example_handlers" 0 example_world shogi 3
      "snd (the (DbGameRepo_Store (NewDbGameRepo example_handlers) example_world shogi))"]
  by (simp add: NewDbUserRepo_def NewDbPlayerRepo_def NewDbGameRepo_def example_handlers_def
      example_world_def example_db_def bob_def alice_def newcomer_def shogi_def
      DbPlayerRepo_Store_def DbPlayerRepo_playerExisted_def DbUserRepo_Store_def
      DbGameRepo_Store_def DbPlayerRepo_NameMatchesId_def Query_def Execute_def
      defer_Close_def)

section \<open>Hydrating a library\<close>

text \<open>
  C5. For a stored Library (the first libraries row of that id names \<open>userId\<close>) whose
  User hydration succeeds, when the engine answers the two library queries:
  if \<open>DbGameRepo.FindById\<close> returns the game \<open>g j\<close> for every id \<open>j\<close> the games
  cursor yields, \<open>DbLibraryRepo.FindById\<close> returns the Library with the Games
  \<open>g j\<close> in exactly the order of the cursor, which is the order of the games rows
  of that \<open>library_id\<close>, and a nil error; and for a Library without games it
  returns the empty Games sequence and a nil error.
\<close>

theorem Library_FindById_games_in_cursor_order:
  assumes "dbHandler repo = Some h"
    and "query_fault (w h) (SelectLibraryById id') = None"
    and "filter (\<lambda>(j, u). j = id') (libraries (w h)) = (j, userId) # rest"
    and "DbUserRepo_FindById (NewDbUserRepo (dbHandlers repo)) w userId = Some (user, None)"
    and "query_fault (w h) (SelectGameIdsByLibrary id') = None"
    and "ids = map fst (filter (\<lambda>(j, lib, n, p, v). lib = id') (games (w h)))"
  shows "((\<forall>j\<in>set ids. DbGameRepo_FindById (NewDbGameRepo (dbHandlers repo)) w j
              = Some (g j, None))
          \<longrightarrow> DbLibraryRepo_FindById repo w id'
              = Some (\<lparr>Library_Id = id', Library_User = user, Library_Games = map g ids\<rparr>, None))
       \<and> (ids = []
          \<longrightarrow> DbLibraryRepo_FindById repo w id'
              = Some (\<lparr>Library_Id = id', Library_User = user, Library_Games = []\<rparr>, None))"
proof -
  have rows: "select_rows (w h) (SelectGameIdsByLibrary id') = map (\<lambda>j. [VInt j]) ids"
    using assms(6) by (simp add: game_id_rows)
  have run: "DbLibraryRepo_FindById repo w id'
      = FindById_games (NewDbGameRepo (dbHandlers repo)) w
          (Rows (map (\<lambda>j. [VInt j]) ids) None False)
          \<lparr>Library_Id = id', Library_User = user, Library_Games = []\<rparr> None"
    using assms(1-5) rows by (simp add: DbLibraryRepo_FindById_ok del: select_rows.simps)
  have all: "DbLibraryRepo_FindById repo w id'
      = Some (\<lparr>Library_Id = id', Library_User = user, Library_Games = map g ids\<rparr>, None)"
    if "\<forall>j\<in>set ids. DbGameRepo_FindById (NewDbGameRepo (dbHandlers repo)) w j = Some (g j, None)"
    using FindById_games_all [OF that] by (simp add: run)
  have none: "DbLibraryRepo_FindById repo w id'
      = Some (\<lparr>Library_Id = id', Library_User = user, Library_Games = []\<rparr>, None)"
    if "ids = []"
    using that FindById_games_all [of "[]" "NewDbGameRepo (dbHandlers repo)" w g]
    by (simp add: run)
  from all none show ?thesis by blast
qed

theorem Library_FindById_games_in_cursor_order_witness:
  "DbLibraryRepo_FindById (NewDbLibraryRepo example_handlers) example_world 1
     = Some (\<lparr>Library_Id = 1, Library_User = alice_u, Library_Games = [chess, go]\<rparr>, None)
   \<and> DbLibraryRepo_FindById (NewDbLibraryRepo example_handlers) example_world 2
     = Some (\<lparr>Library_Id = 2, Library_User = alice_u, Library_Games = []\<rparr>, None)"
  using
    Library_FindById_games_in_cursor_order [of "NewDbLibraryRepo example_handlers" 0
      example_world 1 1 1 "[]" alice_u "[1, 2]" "\<lambda>j. if j = 1 then chess else go"]
    Library_FindById_games_in_cursor_order [of "NewDbLibraryRepo example_handlers" 0
      example_world 2 2 1 "[]" alice_u "[]" "\<lambda>j. chess"]
  by (simp add: NewDbLibraryRepo_def NewDbUserRepo_def NewDbPlayerRepo_def NewDbGameRepo_def
      example_handlers_def example_world_def example_db_def alice_u_def alice_def chess_def
      go_def DbUserRepo_FindById_def DbPlayerRepo_FindById_def DbGameRepo_FindById_def
      Query_def defer_Close_def Scan_user_def Scan_string_def Scan_game_def)




section \<open>Entities returned beside an error\<close>

text \<open>The single-row lookups and \<open>LoadInfo\<close> return the zero value whenever they
  return an error.\<close>

lemma Scan_string_error: "Scan_string row = Some (s, Some e) \<Longrightarrow> s = []"
  by (auto simp: Scan_string_def split: bind_splits sum.splits list.splits val.splits)

lemma Player_FindById_zero_on_error:
  "DbPlayerRepo_FindById repo w i = Some (player, Some e) \<Longrightarrow> player = Player_zero"
  by (auto simp: DbPlayerRepo_FindById_def defer_Close_def
      split: bind_splits if_splits prod.splits)

lemma Game_FindById_zero_on_error:
  "DbGameRepo_FindById repo w i = Some (game, Some e) \<Longrightarrow> game = Game_zero"
  by (auto simp: DbGameRepo_FindById_def defer_Close_def
      split: bind_splits if_splits prod.splits)

lemma LoadInfo_zero_on_error:
  "DbUserRepo_LoadInfo repo w u = Some (info, Some e) \<Longrightarrow> info = []"
  by (auto simp: DbUserRepo_LoadInfo_def defer_Close_def
      split: bind_splits if_splits prod.splits dest: Scan_string_error)

lemma User_FindById_zero_on_error:
  "DbUserRepo_FindById repo w i = Some (user, Some e) \<Longrightarrow> user = User_zero"
  by (auto simp: DbUserRepo_FindById_def defer_Close_def Let_def
      split: bind_splits if_splits prod.splits)

text \<open>
  C7 (the code departs from the claim). \<open>DbLibraryRepo.FindById\<close> on the example
  store, asked for library 1 while the lookup of game 2 fails: it returns the error
  together with the Library it has built so far, holding the user and the first
  game, and not the zero Library.
\<close>

theorem Library_FindById_returns_partial_library_with_error:
  "DbLibraryRepo_FindById (NewDbLibraryRepo example_handlers) flaky_world 1
     = Some (\<lparr>Library_Id = 1, Library_User = alice_u, Library_Games = [chess]\<rparr>,
             Some (DriverError ''connection lost''))
   \<and> \<lparr>Library_Id = 1, Library_User = alice_u, Library_Games = [chess]\<rparr> \<noteq> Library_zero"
  by (simp add: NewDbLibraryRepo_def NewDbUserRepo_def NewDbPlayerRepo_def NewDbGameRepo_def
      example_handlers_def flaky_world_def example_db_def alice_u_def alice_def chess_def
      DbLibraryRepo_FindById_def DbUserRepo_FindById_def DbPlayerRepo_FindById_def
      DbGameRepo_FindById_def FindById_games.simps Library_zero_def Game_zero_def
      Query_def defer_Close_def Scan_user_def Scan_string_def Scan_int_def Scan_game_def)

end
